theory Spec2Isabelle
  imports Main "HOL-Library.Sublist"
begin

section \<open>Python values, exceptions and events\<close>

text \<open>
  The workflow processor of \<^verbatim>\<open>evolving_agents/workflow/workflow_processor.py\<close> handles
  three kinds of Python data: the object that \<^verbatim>\<open>yaml.safe_load\<close> builds from the document,
  the \<^verbatim>\<open>params\<close> dictionary of the caller, and the dictionary it returns. All three are
  values of \<open>pyval\<close>. A \<^verbatim>\<open>dict\<close> is an association list in insertion order (the order
  \<^verbatim>\<open>json.dumps\<close> writes); Python keeps its keys distinct, and no result below needs that. A \<^verbatim>\<open>float\<close> is carried as the text \<^verbatim>\<open>float.__repr__\<close> gives
  for it (\<^verbatim>\<open>1.5\<close>, \<^verbatim>\<open>nan\<close>, \<^verbatim>\<open>inf\<close>, \<^verbatim>\<open>-inf\<close>); no floating point arithmetic happens in the
  module. \<open>PObj c\<close> is an instance of any other class \<open>c\<close> (\<^verbatim>\<open>set\<close>, \<^verbatim>\<open>bytes\<close>, \<^verbatim>\<open>date\<close>,
  \<^verbatim>\<open>datetime\<close>, \<^verbatim>\<open>Decimal\<close>, ...): it has no \<^verbatim>\<open>get\<close> attribute and the JSON encoder does not
  know it. A \<^verbatim>\<open>str\<close> is a list of characters; the module only concatenates strings.
\<close>

datatype pyval =
    PNone
  | PBool bool
  | PInt int
  | PFloat string
  | PStr string
  | PList "pyval list"
  | PTuple "pyval list"
  | PDict "(pyval \<times> pyval) list"
  | PObj string

text \<open>A raised exception: its class and the text \<^verbatim>\<open>str(e)\<close> gives.\<close>

datatype py_exception = Raise (exc_class: string) (exc_str: string)

text \<open>
  What a call does besides returning: the records it hands to the module's logger and the
  instruction it passes to \<^verbatim>\<open>agent.run\<close>.
\<close>

datatype event = Log_Info string | Log_Error string | Agent_Run string

definition class_name :: "pyval \<Rightarrow> string" where
  "class_name v =
     (case v of
        PNone \<Rightarrow> ''NoneType''
      | PBool _ \<Rightarrow> ''bool''
      | PInt _ \<Rightarrow> ''int''
      | PFloat _ \<Rightarrow> ''float''
      | PStr _ \<Rightarrow> ''str''
      | PList _ \<Rightarrow> ''list''
      | PTuple _ \<Rightarrow> ''tuple''
      | PDict _ \<Rightarrow> ''dict''
      | PObj c \<Rightarrow> c)"

text \<open>
  \<^verbatim>\<open>workflow.get(key, default)\<close>: only a \<^verbatim>\<open>dict\<close> has the method; on any other object the
  attribute lookup raises \<^verbatim>\<open>AttributeError\<close>. A key that is present with the value
  \<^verbatim>\<open>None\<close> yields \<^verbatim>\<open>None\<close>, not the default.
\<close>

definition py_get :: "pyval \<Rightarrow> pyval \<Rightarrow> pyval \<Rightarrow> py_exception + pyval" where
  "py_get obj key dflt =
     (case obj of
        PDict kvs \<Rightarrow> Inr (case map_of kvs key of None \<Rightarrow> dflt | Some v \<Rightarrow> v)
      | _ \<Rightarrow> Inl (Raise ''AttributeError''
                 ([CHR 0x27] @ class_name obj @ [CHR 0x27] @ '' object has no attribute ''
                  @ [CHR 0x27] @ ''get'' @ [CHR 0x27])))"

section \<open>\<^verbatim>\<open>json.dumps(params, indent=2)\<close>\<close>

text \<open>
  The standard encoder with its defaults (\<^verbatim>\<open>ensure_ascii=True\<close>, \<^verbatim>\<open>allow_nan=True\<close>,
  \<^verbatim>\<open>skipkeys=False\<close>, \<^verbatim>\<open>sort_keys=False\<close>) and \<^verbatim>\<open>indent=2\<close>, hence the separators
  \<^verbatim>\<open>','\<close> and \<^verbatim>\<open>': '\<close>. A character outside \<^verbatim>\<open>' '..'~'\<close> is escaped. Values are
  finite trees, so the encoder's check for a container that contains itself never fires;
  the limits of the interpreter (recursion depth, the number of digits of an \<^verbatim>\<open>int\<close> it
  converts) are left out.
\<close>

definition hex_digit :: "nat \<Rightarrow> char" where
  "hex_digit n = ''0123456789abcdef'' ! (n mod 16)"

definition escape_char :: "char \<Rightarrow> string" where
  "escape_char c =
     (if c = CHR 0x5C then [CHR 0x5C, CHR 0x5C]
      else if c = CHR 0x22 then [CHR 0x5C, CHR 0x22]
      else if c = CHR 0x08 then [CHR 0x5C, CHR ''b'']
      else if c = CHR 0x0C then [CHR 0x5C, CHR ''f'']
      else if c = CHR 0x0A then [CHR 0x5C, CHR ''n'']
      else if c = CHR 0x0D then [CHR 0x5C, CHR ''r'']
      else if c = CHR 0x09 then [CHR 0x5C, CHR ''t'']
      else if 32 \<le> (of_char c :: nat) \<and> (of_char c :: nat) \<le> 126 then [c]
      else [CHR 0x5C, CHR ''u'', CHR ''0'', CHR ''0'',
            hex_digit (of_char c div 16), hex_digit (of_char c mod 16)])"

definition encoder :: "string \<Rightarrow> string" where
  "encoder s = [CHR 0x22] @ concat (map escape_char s) @ [CHR 0x22]"

fun nat_repr :: "nat \<Rightarrow> string" where
  "nat_repr n =
     (if n < 10 then [''0123456789'' ! n]
      else nat_repr (n div 10) @ [''0123456789'' ! (n mod 10)])"

declare nat_repr.simps [simp del]

definition intstr :: "int \<Rightarrow> string" where
  "intstr i = (if i < 0 then ''-'' @ nat_repr (nat (- i)) else nat_repr (nat i))"

definition floatstr :: "string \<Rightarrow> string" where
  "floatstr r =
     (if r = ''nan'' then ''NaN''
      else if r = ''inf'' then ''Infinity''
      else if r = ''-inf'' then ''-Infinity''
      else r)"

definition newline_indent :: "nat \<Rightarrow> string" where
  "newline_indent level = CHR 0x0A # replicate (2 * level) CHR '' ''"

text \<open>
  The text of a dictionary key: \<^verbatim>\<open>str\<close> as it is, \<^verbatim>\<open>float\<close>, \<^verbatim>\<open>bool\<close>, \<^verbatim>\<open>None\<close> and
  \<^verbatim>\<open>int\<close> converted, any other key a \<^verbatim>\<open>TypeError\<close>.
\<close>

definition key_text :: "pyval \<Rightarrow> py_exception + string" where
  "key_text key =
     (case key of
        PStr s \<Rightarrow> Inr s
      | PFloat r \<Rightarrow> Inr (floatstr r)
      | PBool b \<Rightarrow> Inr (if b then ''true'' else ''false'')
      | PNone \<Rightarrow> Inr ''null''
      | PInt i \<Rightarrow> Inr (intstr i)
      | _ \<Rightarrow> Inl (Raise ''TypeError''
                 (''keys must be str, int, float, bool or None, not '' @ class_name key)))"

text \<open>
  \<open>iterencode level v\<close> is the text of \<open>v\<close> at nesting depth \<open>level\<close>;
  \<open>iterencode_list\<close> and \<open>iterencode_dict\<close> write the items of a non-empty container,
  one per line. The first item that cannot be written raises, and nothing is returned.
\<close>

fun iterencode :: "nat \<Rightarrow> pyval \<Rightarrow> py_exception + string"
  and iterencode_list :: "nat \<Rightarrow> pyval list \<Rightarrow> py_exception + string"
  and iterencode_dict :: "nat \<Rightarrow> (pyval \<times> pyval) list \<Rightarrow> py_exception + string"
where
  "iterencode level PNone = Inr ''null''"
| "iterencode level (PBool b) = Inr (if b then ''true'' else ''false'')"
| "iterencode level (PInt i) = Inr (intstr i)"
| "iterencode level (PFloat r) = Inr (floatstr r)"
| "iterencode level (PStr s) = Inr (encoder s)"
| "iterencode level (PList xs) =
     (if xs = [] then Inr ''[]''
      else case iterencode_list (Suc level) xs of
             Inl e \<Rightarrow> Inl e
           | Inr body \<Rightarrow>
               Inr (''['' @ newline_indent (Suc level) @ body @ newline_indent level @ '']''))"
| "iterencode level (PTuple xs) =
     (if xs = [] then Inr ''[]''
      else case iterencode_list (Suc level) xs of
             Inl e \<Rightarrow> Inl e
           | Inr body \<Rightarrow>
               Inr (''['' @ newline_indent (Suc level) @ body @ newline_indent level @ '']''))"
| "iterencode level (PDict kvs) =
     (if kvs = [] then Inr ''{}''
      else case iterencode_dict (Suc level) kvs of
             Inl e \<Rightarrow> Inl e
           | Inr body \<Rightarrow>
               Inr (''{'' @ newline_indent (Suc level) @ body @ newline_indent level @ ''}''))"
| "iterencode level (PObj c) =
     Inl (Raise ''TypeError'' (''Object of type '' @ c @ '' is not JSON serializable''))"
| "iterencode_list level [] = Inr []"
| "iterencode_list level (x # xs) =
     (case iterencode level x of
        Inl e \<Rightarrow> Inl e
      | Inr chunk \<Rightarrow>
          (if xs = [] then Inr chunk
           else case iterencode_list level xs of
                  Inl e \<Rightarrow> Inl e
                | Inr rest \<Rightarrow> Inr (chunk @ '','' @ newline_indent level @ rest)))"
| "iterencode_dict level [] = Inr []"
| "iterencode_dict level ((key, v) # kvs) =
     (case key_text key of
        Inl e \<Rightarrow> Inl e
      | Inr k \<Rightarrow>
          (case iterencode level v of
             Inl e \<Rightarrow> Inl e
           | Inr chunk \<Rightarrow>
               (if kvs = [] then Inr (encoder k @ '': '' @ chunk)
                else case iterencode_dict level kvs of
                       Inl e \<Rightarrow> Inl e
                     | Inr rest \<Rightarrow>
                         Inr (encoder k @ '': '' @ chunk @ '','' @ newline_indent level
                              @ rest))))"

definition dumps :: "(pyval \<times> pyval) list \<Rightarrow> py_exception + string" where
  "dumps params = iterencode 0 (PDict params)"

section \<open>The workflow processor\<close>

text \<open>
  The agent is an object of the framework with one coroutine, \<^verbatim>\<open>run(prompt)\<close>. It may
  keep state and talk to the outside: \<open>'w\<close> is whatever it depends on and changes, and
  \<open>run\<close> maps the instruction and that state to what the awaited call gives back (a
  response or a raised exception) and the state afterwards. The response is read through
  \<^verbatim>\<open>response.result.text\<close>.
\<close>

record run_result =
  "text" :: string

record response =
  result :: run_result

record 'w IAgent =
  run :: "string \<Rightarrow> 'w \<Rightarrow> (py_exception + response) \<times> 'w"

text \<open>
  \<^verbatim>\<open>WorkflowProcessor\<close> has the single attribute \<^verbatim>\<open>agent\<close>, \<^verbatim>\<open>None\<close> until an agent is set.
  An agent object is an ordinary instance and counts as true, so \<^verbatim>\<open>not self.agent\<close> holds
  exactly when the attribute is \<^verbatim>\<open>None\<close>.
\<close>

record 'w WorkflowProcessor =
  agent :: "'w IAgent option"

text \<open>
  Two things come from outside the module and are parameters: the YAML parser
  \<^verbatim>\<open>yaml.safe_load\<close>, which returns the object built or raises (its errors are all
  subclasses of \<^verbatim>\<open>Exception\<close>), and \<open>str_of\<close>, the text \<^verbatim>\<open>str()\<close> gives for a value
  that is not itself a \<^verbatim>\<open>str\<close>.
\<close>

record runtime =
  safe_load :: "string \<Rightarrow> py_exception + pyval"
  str_of :: "pyval \<Rightarrow> string"

text \<open>A replacement field \<^verbatim>\<open>{x}\<close> of an f-string.\<close>

definition format_value :: "runtime \<Rightarrow> pyval \<Rightarrow> string" where
  "format_value rt v = (case v of PStr s \<Rightarrow> s | _ \<Rightarrow> str_of rt v)"

type_synonym outcome = "(string \<times> pyval) list"

type_synonym 'w finished =
  "(py_exception + outcome) \<times> event list \<times> 'w \<times> 'w WorkflowProcessor"

definition init :: "'w IAgent option \<Rightarrow> 'w WorkflowProcessor \<times> event list" where
  "init a = (\<lparr>agent = a\<rparr>, [Log_Info ''Workflow Processor initialized''])"

definition set_agent :: "'w WorkflowProcessor \<Rightarrow> 'w IAgent \<Rightarrow> 'w WorkflowProcessor" where
  "set_agent self a = self\<lparr>agent := Some a\<rparr>"

text \<open>Lines 56 to 58: the three \<^verbatim>\<open>workflow.get\<close> calls, in order.\<close>

definition extract_metadata :: "pyval \<Rightarrow> py_exception + (pyval \<times> pyval \<times> pyval)" where
  "extract_metadata workflow =
     (case py_get workflow (PStr ''scenario_name'') (PStr ''Unnamed Scenario'') of
        Inl e \<Rightarrow> Inl e
      | Inr scenario_name \<Rightarrow>
          (case py_get workflow (PStr ''domain'') (PStr ''general'') of
             Inl e \<Rightarrow> Inl e
           | Inr domain \<Rightarrow>
               (case py_get workflow (PStr ''additional_disclaimers'') (PList []) of
                  Inl e \<Rightarrow> Inl e
                | Inr disclaimers \<Rightarrow> Inr (scenario_name, domain, disclaimers))))"

text \<open>Lines 63 to 65: empty unless \<^verbatim>\<open>params\<close> is a non-empty dictionary.\<close>

definition params_section :: "(pyval \<times> pyval) list option \<Rightarrow> py_exception + string" where
  "params_section params =
     (case params of
        None \<Rightarrow> Inr []
      | Some kvs \<Rightarrow>
          (if kvs = [] then Inr []
           else case dumps kvs of
                  Inl e \<Rightarrow> Inl e
                | Inr s \<Rightarrow> Inr (''\<newline>Parameters:\<newline>'' @ s)))"

text \<open>Lines 68 to 80: the f-string, with the indentation the source file gives its lines.\<close>

definition prompt :: "string \<Rightarrow> string \<Rightarrow> string \<Rightarrow> string" where
  "prompt domain params_sec workflow_yaml =
     ''\<newline>        I need to process this workflow YAML for domain '' @ [CHR 0x27] @ domain
       @ [CHR 0x27] @ params_sec @ '':\<newline>''
     @ ''        \<newline>''
     @ ''        ```yaml\<newline>''
     @ ''        '' @ workflow_yaml @ ''\<newline>''
     @ ''        ```\<newline>''
     @ ''        \<newline>''
     @ ''        Please execute this workflow step by step and provide the results for each step.\<newline>''
     @ ''        For each step, indicate the step type, what action was performed, and the outcome.\<newline>''
     @ ''        \<newline>''
     @ ''        When executing tools or agents, show the input and output for each execution.\<newline>''
     @ ''        When you see placeholders like {params.some_variable}, replace them with the corresponding value from the parameters.\<newline>''
     @ ''        ''"

definition process_workflow ::
  "runtime \<Rightarrow> 'w WorkflowProcessor \<Rightarrow> string \<Rightarrow> (pyval \<times> pyval) list option \<Rightarrow> 'w
     \<Rightarrow> 'w finished" where
  "process_workflow rt self workflow_yaml params w =
     (case agent self of
        None \<Rightarrow>
          (Inr [(''status'', PStr ''error''),
                (''message'', PStr ''No agent set for workflow processing'')],
           [], w, self)
      | Some ag \<Rightarrow>
          (case safe_load rt workflow_yaml of
             Inl e \<Rightarrow>
               (let error = ''Error parsing workflow YAML: '' @ exc_str e
                in (Inr [(''status'', PStr ''error''), (''message'', PStr error)],
                    [Log_Info ''Processing workflow'', Log_Error error], w, self))
           | Inr workflow \<Rightarrow>
               (case extract_metadata workflow of
                  Inl e \<Rightarrow> (Inl e, [Log_Info ''Processing workflow''], w, self)
                | Inr (scenario_name, domain, disclaimers) \<Rightarrow>
                    (let logged =
                       [Log_Info ''Processing workflow'',
                        Log_Info (''Executing scenario: '' @ format_value rt scenario_name
                                  @ '' in domain: '' @ format_value rt domain)]
                     in case params_section params of
                          Inl e \<Rightarrow> (Inl e, logged, w, self)
                        | Inr params_sec \<Rightarrow>
                            (let p = prompt (format_value rt domain) params_sec workflow_yaml
                             in case run ag p w of
                                  (Inl e, w') \<Rightarrow> (Inl e, logged @ [Agent_Run p], w', self)
                                | (Inr response, w') \<Rightarrow>
                                    (Inr [(''status'', PStr ''success''),
                                          (''scenario_name'', scenario_name),
                                          (''domain'', domain),
                                          (''result'', PStr (text (result response))),
                                          (''message'',
                                           PStr (''Successfully executed workflow ''
                                                 @ [CHR 0x27] @ format_value rt scenario_name
                                                 @ [CHR 0x27] @ '' using agent''))],
                                     logged @ [Agent_Run p], w', self))))))"

section \<open>The sections of the instruction\<close>

text \<open>The pieces of the f-string, named after what they say.\<close>

definition domain_statement :: "string \<Rightarrow> string" where
  "domain_statement domain =
     ''\<newline>        I need to process this workflow YAML for domain '' @ [CHR 0x27] @ domain
       @ [CHR 0x27]"

definition fenced_document :: "string \<Rightarrow> string" where
  "fenced_document workflow_yaml =
     '':\<newline>''
     @ ''        \<newline>''
     @ ''        ```yaml\<newline>''
     @ ''        '' @ workflow_yaml @ ''\<newline>''
     @ ''        ```\<newline>''"

definition step_directives :: string where
  "step_directives =
     ''        \<newline>''
     @ ''        Please execute this workflow step by step and provide the results for each step.\<newline>''
     @ ''        For each step, indicate the step type, what action was performed, and the outcome.\<newline>''
     @ ''        \<newline>''
     @ ''        When executing tools or agents, show the input and output for each execution.\<newline>''"

definition placeholder_directive :: string where
  "placeholder_directive =
     ''        When you see placeholders like {params.some_variable}, replace them with the corresponding value from the parameters.\<newline>''
     @ ''        ''"

text \<open>\<^verbatim>\<open>isinstance(v, dict)\<close>: the parsed document is a mapping.\<close>

definition is_dict :: "pyval \<Rightarrow> bool" where
  "is_dict v = (case v of PDict _ \<Rightarrow> True | _ \<Rightarrow> False)"

section \<open>Example inputs\<close>

text \<open>
  Four documents, a table that stands for the parser on them (any other text is
  rejected), a stand-in for \<^verbatim>\<open>str()\<close>, and two agents whose state counts the calls made:
  one answers \<^verbatim>\<open>done\<close>, the other raises.
\<close>

definition refund_yaml :: string where
  "refund_yaml =
     ''scenario_name: '' @ [CHR 0x22] @ ''Refund'' @ [CHR 0x22]
     @ ''\<newline>domain: '' @ [CHR 0x22] @ ''finance'' @ [CHR 0x22]"

definition steps_yaml :: string where
  "steps_yaml = ''steps: []''"

definition list_yaml :: string where
  "list_yaml = ''- a''"

definition broken_yaml :: string where
  "broken_yaml = ''scenario_name: [Refund''"

definition example_load :: "string \<Rightarrow> py_exception + pyval" where
  "example_load s =
     (if s = refund_yaml then
        Inr (PDict [(PStr ''scenario_name'', PStr ''Refund''), (PStr ''domain'', PStr ''finance'')])
      else if s = steps_yaml then Inr (PDict [(PStr ''steps'', PList [])])
      else if s = list_yaml then Inr (PList [PStr ''a''])
      else if s = [] then Inr PNone
      else Inl (Raise ''ParserError'' ''while parsing a flow sequence''))"

definition example_str :: "pyval \<Rightarrow> string" where
  "example_str v =
     (case v of
        PNone \<Rightarrow> ''None''
      | PBool b \<Rightarrow> (if b then ''True'' else ''False'')
      | PInt i \<Rightarrow> intstr i
      | PFloat r \<Rightarrow> r
      | _ \<Rightarrow> ''<'' @ class_name v @ ''>'')"

definition example_runtime :: runtime where
  "example_runtime = \<lparr>safe_load = example_load, str_of = example_str\<rparr>"

definition done_agent :: "nat IAgent" where
  "done_agent = \<lparr>run = (\<lambda>instruction n. (Inr \<lparr>result = \<lparr>text = ''done''\<rparr>\<rparr>, Suc n))\<rparr>"

definition failing_agent :: "nat IAgent" where
  "failing_agent =
     \<lparr>run = (\<lambda>instruction n. (Inl (Raise ''ConnectionError'' ''backend unreachable''), Suc n))\<rparr>"

section \<open>Auxiliary facts\<close>

lemma py_get_dict:
  "py_get (PDict kvs) key dflt = Inr (case map_of kvs key of None \<Rightarrow> dflt | Some v \<Rightarrow> v)"
  by (simp add: py_get_def)

lemma extract_metadata_dict:
  "extract_metadata (PDict kvs) =
     Inr (case map_of kvs (PStr ''scenario_name'') of
            None \<Rightarrow> PStr ''Unnamed Scenario'' | Some v \<Rightarrow> v,
          case map_of kvs (PStr ''domain'') of None \<Rightarrow> PStr ''general'' | Some v \<Rightarrow> v,
          case map_of kvs (PStr ''additional_disclaimers'') of None \<Rightarrow> PList [] | Some v \<Rightarrow> v)"
  by (simp add: extract_metadata_def py_get_dict)

lemma extract_metadata_non_dict:
  assumes "\<not> is_dict v"
  shows "extract_metadata v =
           Inl (Raise ''AttributeError''
                  ([CHR 0x27] @ class_name v @ [CHR 0x27] @ '' object has no attribute ''
                   @ [CHR 0x27] @ ''get'' @ [CHR 0x27]))"
  using assms by (cases v) (simp_all add: is_dict_def extract_metadata_def py_get_def)

lemma prompt_sections:
  "prompt domain params_sec workflow_yaml =
     domain_statement domain @ params_sec @ fenced_document workflow_yaml
     @ step_directives @ placeholder_directive"
  by (simp add: prompt_def domain_statement_def fenced_document_def step_directives_def
        placeholder_directive_def)

lemma sublist_trans_append:
  assumes "sublist xs ys"
  shows "sublist xs (ps @ ys @ ss)"
  using assms sublist_appendI sublist_order.order_trans by blast

lemma sublist_fenced_document: "sublist workflow_yaml (fenced_document workflow_yaml)"
  unfolding fenced_document_def by (metis append.assoc sublist_appendI)

lemma sublist_prompt: "sublist workflow_yaml (prompt domain params_sec workflow_yaml)"
proof -
  have "sublist (fenced_document workflow_yaml) (prompt domain params_sec workflow_yaml)"
    unfolding prompt_sections by (metis append.assoc sublist_appendI)
  with sublist_fenced_document show ?thesis
    by (rule sublist_order.order_trans)
qed

lemma sublist_params_section:
  assumes "sublist xs params_sec"
  shows "sublist xs (prompt domain params_sec workflow_yaml)"
  unfolding prompt_sections using assms by (rule sublist_trans_append)

text \<open>Every instruction handed to the agent is the f-string, built after all earlier steps.\<close>

lemma agent_run_event:
  assumes "Agent_Run instruction
             \<in> set (fst (snd (process_workflow rt self workflow_yaml params w)))"
  shows "\<exists>ag workflow scenario_name domain disclaimers params_sec.
           agent self = Some ag
           \<and> safe_load rt workflow_yaml = Inr workflow
           \<and> extract_metadata workflow = Inr (scenario_name, domain, disclaimers)
           \<and> params_section params = Inr params_sec
           \<and> instruction = prompt (format_value rt domain) params_sec workflow_yaml"
  using assms
  by (auto simp: process_workflow_def Let_def split: option.splits sum.splits prod.splits)

text \<open>Each item of a dictionary is written on a line of its own, the key first.\<close>

lemma iterencode_dict_keys:
  assumes "iterencode_dict level kvs = Inr body"
    and "(key, v) \<in> set kvs"
  shows "\<exists>k. key_text key = Inr k
              \<and> sublist (newline_indent level @ encoder k @ '': '') (newline_indent level @ body)"
  using assms
proof (induction kvs arbitrary: body)
  case Nil
  then show ?case by simp
next
  case (Cons item kvs)
  obtain key' v' where item: "item = (key', v')" by (cases item) auto
  from Cons.prems(1) item obtain k' chunk where
    k': "key_text key' = Inr k'" and chunk: "iterencode level v' = Inr chunk"
    by (auto split: sum.splits)
  show ?case
  proof (cases "kvs = []")
    case True
    with Cons.prems item k' chunk have "key = key'" "body = encoder k' @ '': '' @ chunk"
      by auto
    with k' show ?thesis
      by (metis append.assoc sublist_append_rightI)
  next
    case False
    with Cons.prems(1) item k' chunk obtain rest where
      rest: "iterencode_dict level kvs = Inr rest"
      and body: "body = encoder k' @ '': '' @ chunk @ '','' @ newline_indent level @ rest"
      by (auto split: sum.splits)
    show ?thesis
    proof (cases "(key, v) = (key', v')")
      case True
      with k' body show ?thesis
        by (metis Pair_inject append.assoc sublist_append_rightI)
    next
      case False
      with Cons.prems(2) item have "(key, v) \<in> set kvs" by auto
      from Cons.IH [OF rest this] obtain k where
        k: "key_text key = Inr k"
        and sub: "sublist (newline_indent level @ encoder k @ '': '')
                    (newline_indent level @ rest)"
        by blast
      have "newline_indent level @ body =
              (newline_indent level @ encoder k' @ '': '' @ chunk @ '','')
              @ (newline_indent level @ rest) @ []"
        by (simp add: body)
      with sub have "sublist (newline_indent level @ encoder k @ '': '')
                       (newline_indent level @ body)"
        by (metis sublist_trans_append)
      with k show ?thesis by blast
    qed
  qed
qed

lemma dumps_keys:
  assumes "dumps kvs = Inr s" and "kvs \<noteq> []" and "(key, v) \<in> set kvs"
  shows "\<exists>k. key_text key = Inr k \<and> sublist (newline_indent 1 @ encoder k @ '': '') s"
proof -
  from assms(1,2) obtain body where
    body: "iterencode_dict (Suc 0) kvs = Inr body"
    and s: "s = ''{'' @ (newline_indent (Suc 0) @ body) @ newline_indent 0 @ ''}''"
    by (auto simp: dumps_def split: sum.splits)
  from iterencode_dict_keys [OF body assms(3)] obtain k where
    k: "key_text key = Inr k"
    and sub: "sublist (newline_indent (Suc 0) @ encoder k @ '': '')
                (newline_indent (Suc 0) @ body)"
    by blast
  from sub have "sublist (newline_indent 1 @ encoder k @ '': '') s"
    unfolding s One_nat_def by (rule sublist_trans_append)
  with k show ?thesis by blast
qed

text \<open>A text that lacks the character \<open>c\<close> cannot straddle an occurrence of \<open>c\<close>.\<close>

lemma sublist_separator:
  assumes "c \<notin> set xs" and "sublist xs (a @ c # b)"
  shows "sublist xs a \<or> sublist xs b"
proof -
  from assms(2) consider "sublist xs a" | "sublist xs (c # b)"
    | xs1 xs2 where "xs = xs1 @ xs2" "suffix xs1 a" "prefix xs2 (c # b)"
    by (auto simp: sublist_append)
  then show ?thesis
  proof cases
    case 1
    then show ?thesis by simp
  next
    case 2
    then have "prefix xs (c # b) \<or> sublist xs b" by (simp add: sublist_Cons_right)
    with assms(1) show ?thesis by (cases xs) auto
  next
    case 3
    with assms(1) have "xs2 = []" by (cases xs2) auto
    with 3 show ?thesis by auto
  qed
qed

text \<open>
  The fixed text of the f-string never says \<^verbatim>\<open>Parameters:\<close>; without a parameters
  section the heading can only come from the domain or from the document.
\<close>

lemma no_heading_without_params:
  assumes "\<not> sublist ''Parameters:'' domain" and "\<not> sublist ''Parameters:'' workflow_yaml"
  shows "\<not> sublist ''Parameters:'' (prompt domain [] workflow_yaml)"
proof
  let ?h = "''Parameters:''"
  let ?pre = "''\<newline>        I need to process this workflow YAML for domain ''"
  let ?mid = "'':\<newline>        \<newline>        ```yaml\<newline>       ''"
  let ?post = "''        ```\<newline>'' @ step_directives @ placeholder_directive"
  let ?tail3 = "workflow_yaml @ CHR 0x0A # ?post"
  let ?tail2 = "?mid @ CHR '' '' # ?tail3"
  let ?tail1 = "domain @ CHR 0x27 # ?tail2"
  assume "sublist ?h (prompt domain [] workflow_yaml)"
  moreover have "prompt domain [] workflow_yaml = ?pre @ CHR 0x27 # ?tail1"
    by (simp add: prompt_def step_directives_def placeholder_directive_def)
  ultimately have "sublist ?h (?pre @ CHR 0x27 # ?tail1)"
    by simp
  then have "sublist ?h ?pre \<or> sublist ?h ?tail1"
    by (rule sublist_separator [rotated]) simp
  moreover have "\<not> sublist ?h ?pre"
  proof
    assume "sublist ?h ?pre"
    then have "set ?h \<subseteq> set ?pre" by (rule set_mono_sublist)
    then have "CHR ''P'' \<in> set ?pre" by (rule subsetD) simp
    then show False by simp
  qed
  ultimately have "sublist ?h ?tail1"
    by blast
  then have "sublist ?h domain \<or> sublist ?h ?tail2"
    by (rule sublist_separator [rotated]) simp
  with assms(1) have "sublist ?h ?tail2"
    by blast
  then have "sublist ?h ?mid \<or> sublist ?h ?tail3"
    by (rule sublist_separator [rotated]) simp
  moreover have "\<not> sublist ?h ?mid"
  proof
    assume "sublist ?h ?mid"
    then have "set ?h \<subseteq> set ?mid" by (rule set_mono_sublist)
    then have "CHR ''P'' \<in> set ?mid" by (rule subsetD) simp
    then show False by simp
  qed
  ultimately have "sublist ?h ?tail3" by blast
  then have "sublist ?h workflow_yaml \<or> sublist ?h ?post"
    by (rule sublist_separator [rotated]) simp
  with assms(2) have "sublist ?h ?post" by blast
  then have "set ?h \<subseteq> set ?post" by (rule set_mono_sublist)
  then have "CHR '':'' \<in> set ?post" by (rule subsetD) simp
  then show False by (simp add: step_directives_def placeholder_directive_def)
qed

text \<open>Values of the examples.\<close>

lemma newline_indent_simps:
  "newline_indent 0 = ''\<newline>''" "newline_indent (Suc 0) = ''\<newline>  ''"
  by (simp_all add: newline_indent_def numeral_2_eq_2)

lemma intstr_50: "intstr 50 = ''50''"
  by (simp add: intstr_def nat_repr.simps [of 50] nat_repr.simps [of 5])

lemma dumps_amount_50:
  "dumps [(PStr ''amount'', PInt 50)] =
     Inr (''{\<newline>  '' @ [CHR 0x22] @ ''amount'' @ [CHR 0x22] @ '': 50\<newline>}'')"
  by (simp add: dumps_def newline_indent_simps key_text_def encoder_def escape_char_def
        intstr_50)

lemma no_heading_in_examples:
  "\<not> sublist ''Parameters:'' ''finance''" "\<not> sublist ''Parameters:'' refund_yaml"
proof -
  show "\<not> sublist ''Parameters:'' ''finance''"
  proof
    assume "sublist ''Parameters:'' ''finance''"
    then have "set ''Parameters:'' \<subseteq> set ''finance''" by (rule set_mono_sublist)
    then have "CHR ''P'' \<in> set ''finance''" by (rule subsetD) simp
    then show False by simp
  qed
  show "\<not> sublist ''Parameters:'' refund_yaml"
  proof
    assume "sublist ''Parameters:'' refund_yaml"
    then have "set ''Parameters:'' \<subseteq> set refund_yaml" by (rule set_mono_sublist)
    then have "CHR ''P'' \<in> set refund_yaml" by (rule subsetD) simp
    then show False by (simp add: refund_yaml_def)
  qed
qed

section \<open>Properties\<close>

text \<open>
  C1 (as amended). Let the agent be set, let the document text parse to a mapping, let
  \<^verbatim>\<open>params\<close> be absent, empty or a dictionary that \<^verbatim>\<open>json.dumps\<close> can write, and let the
  awaited \<^verbatim>\<open>agent.run\<close> return a response. Then \<open>process_workflow\<close> returns the dictionary
  with status \<^verbatim>\<open>success\<close>, whose \<^verbatim>\<open>scenario_name\<close> and \<^verbatim>\<open>domain\<close> are the fields of the
  document (or \<^verbatim>\<open>Unnamed Scenario\<close> and \<^verbatim>\<open>general\<close> when the field is absent), whose
  \<^verbatim>\<open>result\<close> is \<^verbatim>\<open>response.result.text\<close> and whose message is
  \<^verbatim>\<open>Successfully executed workflow '<scenario_name>' using agent\<close>. The agent was called once,
  with the f-string.
\<close>

theorem process_workflow_success:
  assumes "agent self = Some ag"
    and "safe_load rt workflow_yaml = Inr (PDict kvs)"
    and "scenario_name =
           (case map_of kvs (PStr ''scenario_name'') of
              None \<Rightarrow> PStr ''Unnamed Scenario'' | Some v \<Rightarrow> v)"
    and "domain = (case map_of kvs (PStr ''domain'') of None \<Rightarrow> PStr ''general'' | Some v \<Rightarrow> v)"
    and "params_section params = Inr params_sec"
    and "run ag (prompt (format_value rt domain) params_sec workflow_yaml) w = (Inr response, w')"
  shows "process_workflow rt self workflow_yaml params w =
           (Inr [(''status'', PStr ''success''),
                 (''scenario_name'', scenario_name),
                 (''domain'', domain),
                 (''result'', PStr (text (result response))),
                 (''message'',
                  PStr (''Successfully executed workflow '' @ [CHR 0x27]
                        @ format_value rt scenario_name @ [CHR 0x27] @ '' using agent''))],
            [Log_Info ''Processing workflow'',
             Log_Info (''Executing scenario: '' @ format_value rt scenario_name
                       @ '' in domain: '' @ format_value rt domain),
             Agent_Run (prompt (format_value rt domain) params_sec workflow_yaml)],
            w', self)"
  using assms by (simp add: process_workflow_def extract_metadata_dict Let_def)

text \<open>
  The example of the specification: the refund document, \<^verbatim>\<open>{"amount": 50}\<close> and an agent
  that answers \<^verbatim>\<open>done\<close>.
\<close>

theorem process_workflow_success_witness:
  "agent (set_agent (fst (init None)) done_agent) = Some done_agent
   \<and> safe_load example_runtime refund_yaml =
       Inr (PDict [(PStr ''scenario_name'', PStr ''Refund''), (PStr ''domain'', PStr ''finance'')])
   \<and> params_section (Some [(PStr ''amount'', PInt 50)]) =
       Inr (''\<newline>Parameters:\<newline>{\<newline>  '' @ [CHR 0x22] @ ''amount'' @ [CHR 0x22] @ '': 50\<newline>}'')
   \<and> process_workflow example_runtime (set_agent (fst (init None)) done_agent) refund_yaml
        (Some [(PStr ''amount'', PInt 50)]) 0 =
       (Inr [(''status'', PStr ''success''),
             (''scenario_name'', PStr ''Refund''),
             (''domain'', PStr ''finance''),
             (''result'', PStr ''done''),
             (''message'', PStr (''Successfully executed workflow '' @ [CHR 0x27] @ ''Refund''
                                 @ [CHR 0x27] @ '' using agent''))],
        [Log_Info ''Processing workflow'',
         Log_Info ''Executing scenario: Refund in domain: finance'',
         Agent_Run (prompt ''finance''
            (''\<newline>Parameters:\<newline>{\<newline>  '' @ [CHR 0x22] @ ''amount'' @ [CHR 0x22] @ '': 50\<newline>}'')
            refund_yaml)],
        1, set_agent (fst (init None)) done_agent)"
  using process_workflow_success [of "set_agent (fst (init None)) done_agent" done_agent
      example_runtime refund_yaml
      "[(PStr ''scenario_name'', PStr ''Refund''), (PStr ''domain'', PStr ''finance'')]"
      "PStr ''Refund''" "PStr ''finance''" "Some [(PStr ''amount'', PInt 50)]"
      "''\<newline>Parameters:\<newline>{\<newline>  '' @ [CHR 0x22] @ ''amount'' @ [CHR 0x22] @ '': 50\<newline>}''"
      0 "\<lparr>result = \<lparr>text = ''done''\<rparr>\<rparr>" 1]
  by (simp add: set_agent_def init_def example_runtime_def example_load_def done_agent_def
        params_section_def dumps_amount_50 format_value_def)

text \<open>
  Without the condition on \<^verbatim>\<open>params\<close> the statement fails. The refund document is a
  mapping and the agent is set and would answer, but \<^verbatim>\<open>{"amount": Decimal(...)}\<close> makes
  \<^verbatim>\<open>json.dumps\<close> raise \<^verbatim>\<open>TypeError\<close>; nothing catches it, so the call raises instead of
  returning, before the agent is reached.
\<close>

theorem process_workflow_success_counterexample:
  "agent (set_agent (fst (init None)) done_agent) = Some done_agent
   \<and> safe_load example_runtime refund_yaml =
       Inr (PDict [(PStr ''scenario_name'', PStr ''Refund''), (PStr ''domain'', PStr ''finance'')])
   \<and> process_workflow example_runtime (set_agent (fst (init None)) done_agent) refund_yaml
        (Some [(PStr ''amount'', PObj ''Decimal'')]) 0 =
       (Inl (Raise ''TypeError'' ''Object of type Decimal is not JSON serializable''),
        [Log_Info ''Processing workflow'',
         Log_Info ''Executing scenario: Refund in domain: finance''],
        0, set_agent (fst (init None)) done_agent)"
  by (simp add: process_workflow_def set_agent_def init_def example_runtime_def example_load_def
        extract_metadata_def py_get_def format_value_def params_section_def dumps_def
        key_text_def Let_def)

text \<open>
  C2. With no agent set, \<open>process_workflow\<close> returns the dictionary
  \<^verbatim>\<open>{"status": "error", "message": "No agent set for workflow processing"}\<close> for every
  document text and every parameters argument: it raises nothing, logs nothing, makes no
  call of \<^verbatim>\<open>agent.run\<close>, and leaves the outside state as it was.
\<close>

theorem process_workflow_no_agent:
  assumes "agent self = None"
  shows "process_workflow rt self workflow_yaml params w =
           (Inr [(''status'', PStr ''error''),
                 (''message'', PStr ''No agent set for workflow processing'')],
            [], w, self)"
  using assms by (simp add: process_workflow_def)

theorem process_workflow_no_agent_witness:
  "agent (fst (init None :: nat WorkflowProcessor \<times> event list)) = None
   \<and> process_workflow example_runtime (fst (init None)) broken_yaml
        (Some [(PStr ''amount'', PObj ''Decimal'')]) (0::nat) =
       (Inr [(''status'', PStr ''error''),
             (''message'', PStr ''No agent set for workflow processing'')],
        [], 0, fst (init None))"
  using process_workflow_no_agent [of "fst (init None)" example_runtime broken_yaml
      "Some [(PStr ''amount'', PObj ''Decimal'')]" "0::nat"]
  by (simp add: init_def)

text \<open>
  C3. With an agent set, a document text on which the parser raises \<open>e\<close> makes
  \<open>process_workflow\<close> return (not raise) the error dictionary whose message is
  \<^verbatim>\<open>Error parsing workflow YAML: \<close> followed by \<^verbatim>\<open>str(e)\<close>, so the parser's text is part of
  the message; the error is logged and the agent is not called. It is the only failure
  that is turned into a dictionary: whenever a call with an agent set returns a
  dictionary with status \<^verbatim>\<open>error\<close>, the parser has raised and the dictionary is that one.
\<close>

theorem parse_failure_wrapped:
  assumes "agent self = Some ag"
  shows "(safe_load rt workflow_yaml = Inl e \<longrightarrow>
            process_workflow rt self workflow_yaml params w =
              (Inr [(''status'', PStr ''error''),
                    (''message'', PStr (''Error parsing workflow YAML: '' @ exc_str e))],
               [Log_Info ''Processing workflow'',
                Log_Error (''Error parsing workflow YAML: '' @ exc_str e)],
               w, self)
            \<and> sublist (exc_str e) (''Error parsing workflow YAML: '' @ exc_str e))
       \<and> (fst (process_workflow rt self workflow_yaml params w) = Inr out
            \<and> map_of out ''status'' = Some (PStr ''error'')
          \<longrightarrow> (\<exists>e'. safe_load rt workflow_yaml = Inl e'
                    \<and> out = [(''status'', PStr ''error''),
                             (''message'',
                              PStr (''Error parsing workflow YAML: '' @ exc_str e'))]))"
proof (intro conjI impI)
  assume "safe_load rt workflow_yaml = Inl e"
  with assms show "process_workflow rt self workflow_yaml params w =
              (Inr [(''status'', PStr ''error''),
                    (''message'', PStr (''Error parsing workflow YAML: '' @ exc_str e))],
               [Log_Info ''Processing workflow'',
                Log_Error (''Error parsing workflow YAML: '' @ exc_str e)],
               w, self)"
    by (simp add: process_workflow_def Let_def)
next
  show "sublist (exc_str e) (''Error parsing workflow YAML: '' @ exc_str e)"
    by (rule sublist_append_leftI)
next
  assume "fst (process_workflow rt self workflow_yaml params w) = Inr out
            \<and> map_of out ''status'' = Some (PStr ''error'')"
  with assms show "\<exists>e'. safe_load rt workflow_yaml = Inl e'
                    \<and> out = [(''status'', PStr ''error''),
                             (''message'',
                              PStr (''Error parsing workflow YAML: '' @ exc_str e'))]"
    by (auto simp: process_workflow_def Let_def split: sum.splits prod.splits)
qed

theorem parse_failure_wrapped_witness:
  "agent (set_agent (fst (init None)) done_agent) = Some done_agent
   \<and> safe_load example_runtime broken_yaml =
       Inl (Raise ''ParserError'' ''while parsing a flow sequence'')
   \<and> process_workflow example_runtime (set_agent (fst (init None)) done_agent) broken_yaml
        None 0 =
       (Inr [(''status'', PStr ''error''),
             (''message'', PStr ''Error parsing workflow YAML: while parsing a flow sequence'')],
        [Log_Info ''Processing workflow'',
         Log_Error ''Error parsing workflow YAML: while parsing a flow sequence''],
        0, set_agent (fst (init None)) done_agent)
   \<and> sublist ''while parsing a flow sequence''
        ''Error parsing workflow YAML: while parsing a flow sequence''"
  using parse_failure_wrapped [of "set_agent (fst (init None)) done_agent" done_agent
      example_runtime broken_yaml "Raise ''ParserError'' ''while parsing a flow sequence''" None 0
      "[(''status'', PStr ''error''),
        (''message'', PStr ''Error parsing workflow YAML: while parsing a flow sequence'')]"]
  by (simp add: set_agent_def init_def example_runtime_def example_load_def broken_yaml_def
        refund_yaml_def steps_yaml_def list_yaml_def)

text \<open>
  C4 (as amended). Let the agent be set and the document parse to a mapping. When
  \<^verbatim>\<open>params\<close> is omitted or empty, the one instruction sent is the f-string with an empty
  parameters section: the domain is followed at once by the colon, and the heading
  \<^verbatim>\<open>Parameters:\<close> occurs nowhere in it unless the domain or the document says it. When
  \<^verbatim>\<open>params\<close> is a non-empty dictionary that \<^verbatim>\<open>json.dumps\<close> can write, the one instruction
  sent carries the heading and the JSON text, and for every key of the dictionary it
  contains a line break, two spaces, the key as a JSON string, a colon and a space.
\<close>

theorem parameters_in_instruction:
  assumes "agent self = Some ag"
    and "safe_load rt workflow_yaml = Inr workflow"
    and "extract_metadata workflow = Inr (scenario_name, domain, disclaimers)"
  shows "((params = None \<or> params = Some []) \<longrightarrow>
            fst (snd (process_workflow rt self workflow_yaml params w)) =
              [Log_Info ''Processing workflow'',
               Log_Info (''Executing scenario: '' @ format_value rt scenario_name
                         @ '' in domain: '' @ format_value rt domain),
               Agent_Run (prompt (format_value rt domain) [] workflow_yaml)]
            \<and> (\<not> sublist ''Parameters:'' (format_value rt domain)
                 \<and> \<not> sublist ''Parameters:'' workflow_yaml
               \<longrightarrow> \<not> sublist ''Parameters:'' (prompt (format_value rt domain) [] workflow_yaml)))
         \<and> (\<forall>kvs s. params = Some kvs \<and> kvs \<noteq> [] \<and> dumps kvs = Inr s \<longrightarrow>
              fst (snd (process_workflow rt self workflow_yaml params w)) =
                [Log_Info ''Processing workflow'',
                 Log_Info (''Executing scenario: '' @ format_value rt scenario_name
                           @ '' in domain: '' @ format_value rt domain),
                 Agent_Run (prompt (format_value rt domain) (''\<newline>Parameters:\<newline>'' @ s)
                              workflow_yaml)]
              \<and> (\<forall>(key, v) \<in> set kvs.
                    \<exists>k. key_text key = Inr k
                        \<and> sublist (newline_indent 1 @ encoder k @ '': '')
                            (prompt (format_value rt domain) (''\<newline>Parameters:\<newline>'' @ s)
                               workflow_yaml)))"
proof (intro conjI impI allI)
  assume "params = None \<or> params = Some []"
  then have "params_section params = Inr []"
    by (auto simp: params_section_def)
  with assms show "fst (snd (process_workflow rt self workflow_yaml params w)) =
              [Log_Info ''Processing workflow'',
               Log_Info (''Executing scenario: '' @ format_value rt scenario_name
                         @ '' in domain: '' @ format_value rt domain),
               Agent_Run (prompt (format_value rt domain) [] workflow_yaml)]"
    by (simp add: process_workflow_def Let_def split: sum.split prod.split)
next
  assume "\<not> sublist ''Parameters:'' (format_value rt domain)
          \<and> \<not> sublist ''Parameters:'' workflow_yaml"
  then show "\<not> sublist ''Parameters:'' (prompt (format_value rt domain) [] workflow_yaml)"
    by (simp add: no_heading_without_params)
next
  fix kvs s
  assume a: "params = Some kvs \<and> kvs \<noteq> [] \<and> dumps kvs = Inr s"
  then have "params_section params = Inr (''\<newline>Parameters:\<newline>'' @ s)"
    by (simp add: params_section_def)
  with assms show "fst (snd (process_workflow rt self workflow_yaml params w)) =
                [Log_Info ''Processing workflow'',
                 Log_Info (''Executing scenario: '' @ format_value rt scenario_name
                           @ '' in domain: '' @ format_value rt domain),
                 Agent_Run (prompt (format_value rt domain) (''\<newline>Parameters:\<newline>'' @ s)
                              workflow_yaml)]"
    by (simp add: process_workflow_def Let_def split: sum.split prod.split)
  show "\<forall>(key, v) \<in> set kvs.
          \<exists>k. key_text key = Inr k
              \<and> sublist (newline_indent 1 @ encoder k @ '': '')
                  (prompt (format_value rt domain) (''\<newline>Parameters:\<newline>'' @ s)
                     workflow_yaml)"
  proof (clarify)
    fix key v
    assume "(key, v) \<in> set kvs"
    with a dumps_keys [of kvs s key v] obtain k where
      k: "key_text key = Inr k" and sub: "sublist (newline_indent 1 @ encoder k @ '': '') s"
      by blast
    from sub have "sublist (newline_indent 1 @ encoder k @ '': '')
                     (''\<newline>Parameters:\<newline>'' @ s)"
      using sublist_append_leftI sublist_order.order_trans by blast
    then have "sublist (newline_indent 1 @ encoder k @ '': '')
                 (prompt (format_value rt domain) (''\<newline>Parameters:\<newline>'' @ s)
                    workflow_yaml)"
      by (rule sublist_params_section)
    with k show "\<exists>k. key_text key = Inr k
              \<and> sublist (newline_indent 1 @ encoder k @ '': '')
                  (prompt (format_value rt domain) (''\<newline>Parameters:\<newline>'' @ s)
                     workflow_yaml)"
      by blast
  qed
qed

theorem parameters_in_instruction_witness:
  "agent (set_agent (fst (init None)) done_agent) = Some done_agent
   \<and> safe_load example_runtime refund_yaml =
       Inr (PDict [(PStr ''scenario_name'', PStr ''Refund''), (PStr ''domain'', PStr ''finance'')])
   \<and> extract_metadata
        (PDict [(PStr ''scenario_name'', PStr ''Refund''), (PStr ''domain'', PStr ''finance'')]) =
       Inr (PStr ''Refund'', PStr ''finance'', PList [])
   \<and> fst (snd (process_workflow example_runtime (set_agent (fst (init None)) done_agent)
        refund_yaml (Some []) 0)) =
       [Log_Info ''Processing workflow'',
        Log_Info ''Executing scenario: Refund in domain: finance'',
        Agent_Run (prompt ''finance'' [] refund_yaml)]
   \<and> \<not> sublist ''Parameters:'' ''finance''
   \<and> \<not> sublist ''Parameters:'' refund_yaml
   \<and> \<not> sublist ''Parameters:'' (prompt ''finance'' [] refund_yaml)
   \<and> dumps [(PStr ''amount'', PInt 50)] =
       Inr (''{\<newline>  '' @ [CHR 0x22] @ ''amount'' @ [CHR 0x22] @ '': 50\<newline>}'')
   \<and> fst (snd (process_workflow example_runtime (set_agent (fst (init None)) done_agent)
        refund_yaml (Some [(PStr ''amount'', PInt 50)]) 0)) =
       [Log_Info ''Processing workflow'',
        Log_Info ''Executing scenario: Refund in domain: finance'',
        Agent_Run (prompt ''finance''
          (''\<newline>Parameters:\<newline>{\<newline>  '' @ [CHR 0x22] @ ''amount'' @ [CHR 0x22] @ '': 50\<newline>}'')
          refund_yaml)]
   \<and> sublist (''\<newline>  '' @ [CHR 0x22] @ ''amount'' @ [CHR 0x22] @ '': '')
        (prompt ''finance''
          (''\<newline>Parameters:\<newline>{\<newline>  '' @ [CHR 0x22] @ ''amount'' @ [CHR 0x22] @ '': 50\<newline>}'')
          refund_yaml)"
  using parameters_in_instruction [of "set_agent (fst (init None)) done_agent" done_agent
      example_runtime refund_yaml
      "PDict [(PStr ''scenario_name'', PStr ''Refund''), (PStr ''domain'', PStr ''finance'')]"
      "PStr ''Refund''" "PStr ''finance''" "PList []" "Some []" 0]
    parameters_in_instruction [of "set_agent (fst (init None)) done_agent" done_agent
      example_runtime refund_yaml
      "PDict [(PStr ''scenario_name'', PStr ''Refund''), (PStr ''domain'', PStr ''finance'')]"
      "PStr ''Refund''" "PStr ''finance''" "PList []" "Some [(PStr ''amount'', PInt 50)]" 0]
  by (simp add: set_agent_def init_def example_runtime_def example_load_def
        extract_metadata_def py_get_def format_value_def dumps_amount_50 no_heading_in_examples
        key_text_def encoder_def escape_char_def newline_indent_simps)

text \<open>
  A dictionary need not be one that \<^verbatim>\<open>json.dumps\<close> can write. With
  \<^verbatim>\<open>{"deadline": datetime(...)}\<close> the encoder raises \<^verbatim>\<open>TypeError\<close>, the call raises with
  it, and no instruction is sent at all: the agent's state is untouched.
\<close>

theorem parameters_in_instruction_counterexample:
  "agent (set_agent (fst (init None)) done_agent) = Some done_agent
   \<and> safe_load example_runtime steps_yaml = Inr (PDict [(PStr ''steps'', PList [])])
   \<and> dumps [(PStr ''deadline'', PObj ''datetime'')] =
       Inl (Raise ''TypeError'' ''Object of type datetime is not JSON serializable'')
   \<and> process_workflow example_runtime (set_agent (fst (init None)) done_agent) steps_yaml
        (Some [(PStr ''deadline'', PObj ''datetime'')]) 0 =
       (Inl (Raise ''TypeError'' ''Object of type datetime is not JSON serializable''),
        [Log_Info ''Processing workflow'',
         Log_Info ''Executing scenario: Unnamed Scenario in domain: general''],
        0, set_agent (fst (init None)) done_agent)"
  by (simp add: process_workflow_def set_agent_def init_def example_runtime_def example_load_def
        refund_yaml_def steps_yaml_def
        extract_metadata_def py_get_def format_value_def params_section_def dumps_def
        key_text_def Let_def)

text \<open>
  C5. Whenever a call hands an instruction to the agent, the document text is a
  contiguous part of that instruction, character for character, and the instruction is,
  in this order: the statement of the domain, the parameters section (empty, or the
  heading and the JSON text), the fenced document text, the directives on executing the
  steps, and the directive on replacing placeholders.
\<close>

theorem instruction_embeds_document:
  assumes "Agent_Run instruction
             \<in> set (fst (snd (process_workflow rt self workflow_yaml params w)))"
  shows "sublist workflow_yaml instruction
         \<and> (\<exists>workflow scenario_name domain disclaimers params_sec.
               safe_load rt workflow_yaml = Inr workflow
               \<and> extract_metadata workflow = Inr (scenario_name, domain, disclaimers)
               \<and> params_section params = Inr params_sec
               \<and> instruction =
                   domain_statement (format_value rt domain) @ params_sec
                   @ fenced_document workflow_yaml @ step_directives @ placeholder_directive)"
proof -
  from agent_run_event [OF assms] obtain workflow scenario_name domain disclaimers params_sec
    where p: "safe_load rt workflow_yaml = Inr workflow"
      "extract_metadata workflow = Inr (scenario_name, domain, disclaimers)"
      "params_section params = Inr params_sec"
      "instruction = prompt (format_value rt domain) params_sec workflow_yaml"
    by blast
  from p(4) have "sublist workflow_yaml instruction"
    by (simp add: sublist_prompt)
  moreover from p(4) have "instruction =
      domain_statement (format_value rt domain) @ params_sec
      @ fenced_document workflow_yaml @ step_directives @ placeholder_directive"
    by (simp only: prompt_sections)
  ultimately show ?thesis using p(1-3) by blast
qed

theorem instruction_embeds_document_witness:
  "Agent_Run (prompt ''finance''
       (''\<newline>Parameters:\<newline>{\<newline>  '' @ [CHR 0x22] @ ''amount'' @ [CHR 0x22] @ '': 50\<newline>}'')
       refund_yaml)
     \<in> set (fst (snd (process_workflow example_runtime
                 (set_agent (fst (init None)) done_agent) refund_yaml
                 (Some [(PStr ''amount'', PInt 50)]) 0)))
   \<and> sublist refund_yaml
        (prompt ''finance''
           (''\<newline>Parameters:\<newline>{\<newline>  '' @ [CHR 0x22] @ ''amount'' @ [CHR 0x22] @ '': 50\<newline>}'')
           refund_yaml)
   \<and> prompt ''finance''
        (''\<newline>Parameters:\<newline>{\<newline>  '' @ [CHR 0x22] @ ''amount'' @ [CHR 0x22] @ '': 50\<newline>}'')
        refund_yaml =
       domain_statement ''finance''
       @ (''\<newline>Parameters:\<newline>{\<newline>  '' @ [CHR 0x22] @ ''amount'' @ [CHR 0x22] @ '': 50\<newline>}'')
       @ fenced_document refund_yaml @ step_directives @ placeholder_directive"
proof -
  let ?sec = "''\<newline>Parameters:\<newline>{\<newline>  '' @ [CHR 0x22] @ ''amount'' @ [CHR 0x22] @ '': 50\<newline>}''"
  let ?run = "process_workflow example_runtime (set_agent (fst (init None)) done_agent)
                refund_yaml (Some [(PStr ''amount'', PInt 50)]) 0"
  have sent: "Agent_Run (prompt ''finance'' ?sec refund_yaml) \<in> set (fst (snd ?run))"
    by (simp add: process_workflow_def set_agent_def init_def example_runtime_def
          example_load_def extract_metadata_def py_get_def format_value_def params_section_def
          dumps_amount_50 done_agent_def Let_def)
  from instruction_embeds_document [OF sent]
  obtain workflow scenario_name domain disclaimers params_sec where
    sub: "sublist refund_yaml (prompt ''finance'' ?sec refund_yaml)"
    and parsed: "safe_load example_runtime refund_yaml = Inr workflow"
    and meta: "extract_metadata workflow = Inr (scenario_name, domain, disclaimers)"
    and sec: "params_section (Some [(PStr ''amount'', PInt 50)]) = Inr params_sec"
    and parts: "prompt ''finance'' ?sec refund_yaml =
                  domain_statement (format_value example_runtime domain) @ params_sec
                  @ fenced_document refund_yaml @ step_directives @ placeholder_directive"
    by blast
  from parsed have "workflow =
      PDict [(PStr ''scenario_name'', PStr ''Refund''), (PStr ''domain'', PStr ''finance'')]"
    by (simp add: example_runtime_def example_load_def)
  with meta have "domain = PStr ''finance''"
    by (simp add: extract_metadata_dict)
  then have dom: "format_value example_runtime domain = ''finance''"
    by (simp add: format_value_def)
  from sec have "params_sec = ?sec"
    by (simp add: params_section_def dumps_amount_50)
  with parts dom have "prompt ''finance'' ?sec refund_yaml =
      domain_statement ''finance'' @ ?sec
      @ fenced_document refund_yaml @ step_directives @ placeholder_directive"
    by (simp only:)
  with sent sub show ?thesis
    by (intro conjI)
qed

text \<open>
  C6. A document that parses to a mapping never fails at the extraction of the three
  fields: \<^verbatim>\<open>scenario_name\<close> is \<^verbatim>\<open>Unnamed Scenario\<close> when the mapping lacks that key,
  \<^verbatim>\<open>domain\<close> is \<^verbatim>\<open>general\<close> when it lacks that one, \<^verbatim>\<open>additional_disclaimers\<close> is the empty
  list when it lacks that one. With an agent set, the call goes on to log the scenario
  and the domain extracted, whatever the parameters and the agent do afterwards.
\<close>

theorem missing_fields_get_defaults:
  assumes "agent self = Some ag"
    and "safe_load rt workflow_yaml = Inr (PDict kvs)"
  shows "\<exists>scenario_name domain disclaimers.
           extract_metadata (PDict kvs) = Inr (scenario_name, domain, disclaimers)
           \<and> (PStr ''scenario_name'' \<notin> fst ` set kvs
                \<longrightarrow> scenario_name = PStr ''Unnamed Scenario'')
           \<and> (PStr ''domain'' \<notin> fst ` set kvs \<longrightarrow> domain = PStr ''general'')
           \<and> (PStr ''additional_disclaimers'' \<notin> fst ` set kvs \<longrightarrow> disclaimers = PList [])
           \<and> take 2 (fst (snd (process_workflow rt self workflow_yaml params w))) =
               [Log_Info ''Processing workflow'',
                Log_Info (''Executing scenario: '' @ format_value rt scenario_name
                          @ '' in domain: '' @ format_value rt domain)]"
proof -
  let ?sn = "case map_of kvs (PStr ''scenario_name'') of
               None \<Rightarrow> PStr ''Unnamed Scenario'' | Some v \<Rightarrow> v"
  let ?d = "case map_of kvs (PStr ''domain'') of None \<Rightarrow> PStr ''general'' | Some v \<Rightarrow> v"
  let ?ds = "case map_of kvs (PStr ''additional_disclaimers'') of
               None \<Rightarrow> PList [] | Some v \<Rightarrow> v"
  have ex: "extract_metadata (PDict kvs) = Inr (?sn, ?d, ?ds)"
    by (rule extract_metadata_dict)
  have sn: "PStr ''scenario_name'' \<notin> fst ` set kvs \<longrightarrow> ?sn = PStr ''Unnamed Scenario''"
    by (simp add: map_of_eq_None_iff [symmetric])
  have d: "PStr ''domain'' \<notin> fst ` set kvs \<longrightarrow> ?d = PStr ''general''"
    by (simp add: map_of_eq_None_iff [symmetric])
  have ds: "PStr ''additional_disclaimers'' \<notin> fst ` set kvs \<longrightarrow> ?ds = PList []"
    by (simp add: map_of_eq_None_iff [symmetric])
  have logged: "take 2 (fst (snd (process_workflow rt self workflow_yaml params w))) =
               [Log_Info ''Processing workflow'',
                Log_Info (''Executing scenario: '' @ format_value rt ?sn
                          @ '' in domain: '' @ format_value rt ?d)]"
    using assms
    by (simp add: process_workflow_def ex Let_def split: sum.split prod.split)
  from ex sn d ds logged show ?thesis by blast
qed

theorem missing_fields_get_defaults_witness:
  "agent (set_agent (fst (init None)) done_agent) = Some done_agent
   \<and> safe_load example_runtime steps_yaml = Inr (PDict [(PStr ''steps'', PList [])])
   \<and> PStr ''scenario_name'' \<notin> fst ` set [(PStr ''steps'', PList [])]
   \<and> PStr ''domain'' \<notin> fst ` set [(PStr ''steps'', PList [])]
   \<and> PStr ''additional_disclaimers'' \<notin> fst ` set [(PStr ''steps'', PList [])]
   \<and> extract_metadata (PDict [(PStr ''steps'', PList [])]) =
       Inr (PStr ''Unnamed Scenario'', PStr ''general'', PList [])
   \<and> take 2 (fst (snd (process_workflow example_runtime
         (set_agent (fst (init None)) done_agent) steps_yaml None 0))) =
       [Log_Info ''Processing workflow'',
        Log_Info ''Executing scenario: Unnamed Scenario in domain: general'']"
  using missing_fields_get_defaults [of "set_agent (fst (init None)) done_agent" done_agent
      example_runtime steps_yaml "[(PStr ''steps'', PList [])]" None 0]
  by (auto simp add: set_agent_def init_def example_runtime_def example_load_def
        refund_yaml_def steps_yaml_def format_value_def)

text \<open>
  C7. When every step before the call has succeeded and the awaited \<^verbatim>\<open>agent.run\<close> raises
  \<open>e\<close>, \<open>process_workflow\<close> raises that same \<open>e\<close>: no dictionary is returned, and the
  outside state is the one the failed call left.
\<close>

theorem backend_failure_propagates:
  assumes "agent self = Some ag"
    and "safe_load rt workflow_yaml = Inr workflow"
    and "extract_metadata workflow = Inr (scenario_name, domain, disclaimers)"
    and "params_section params = Inr params_sec"
    and "run ag (prompt (format_value rt domain) params_sec workflow_yaml) w = (Inl e, w')"
  shows "process_workflow rt self workflow_yaml params w =
           (Inl e,
            [Log_Info ''Processing workflow'',
             Log_Info (''Executing scenario: '' @ format_value rt scenario_name
                       @ '' in domain: '' @ format_value rt domain),
             Agent_Run (prompt (format_value rt domain) params_sec workflow_yaml)],
            w', self)"
  using assms by (simp add: process_workflow_def Let_def)

theorem backend_failure_propagates_witness:
  "agent (set_agent (fst (init None)) failing_agent) = Some failing_agent
   \<and> safe_load example_runtime refund_yaml =
       Inr (PDict [(PStr ''scenario_name'', PStr ''Refund''), (PStr ''domain'', PStr ''finance'')])
   \<and> extract_metadata
        (PDict [(PStr ''scenario_name'', PStr ''Refund''), (PStr ''domain'', PStr ''finance'')]) =
       Inr (PStr ''Refund'', PStr ''finance'', PList [])
   \<and> params_section None = Inr []
   \<and> run failing_agent (prompt (format_value example_runtime (PStr ''finance'')) [] refund_yaml) 0 =
       (Inl (Raise ''ConnectionError'' ''backend unreachable''), 1)
   \<and> process_workflow example_runtime (set_agent (fst (init None)) failing_agent) refund_yaml
        None 0 =
       (Inl (Raise ''ConnectionError'' ''backend unreachable''),
        [Log_Info ''Processing workflow'',
         Log_Info ''Executing scenario: Refund in domain: finance'',
         Agent_Run (prompt ''finance'' [] refund_yaml)],
        1, set_agent (fst (init None)) failing_agent)"
  using backend_failure_propagates [of "set_agent (fst (init None)) failing_agent" failing_agent
      example_runtime refund_yaml
      "PDict [(PStr ''scenario_name'', PStr ''Refund''), (PStr ''domain'', PStr ''finance'')]"
      "PStr ''Refund''" "PStr ''finance''" "PList []" None "[]" 0
      "Raise ''ConnectionError'' ''backend unreachable''" 1]
  by (simp add: set_agent_def init_def example_runtime_def example_load_def failing_agent_def
        extract_metadata_def py_get_def params_section_def format_value_def)

text \<open>
  C8. If what the agent gives back for an instruction does not depend on the outside
  state, then two calls of \<open>process_workflow\<close> with the same document text and the same
  parameters end alike, in whatever states they start (the second may start in the state
  the first one left): the same dictionary returned or the same exception raised, and
  the same records logged and instruction sent.
\<close>

theorem deterministic_backend_repeatable:
  assumes "\<forall>ag instruction w1 w2.
             agent self = Some ag \<longrightarrow> fst (run ag instruction w1) = fst (run ag instruction w2)"
  shows "fst (process_workflow rt self workflow_yaml params w1) =
           fst (process_workflow rt self workflow_yaml params w2)
         \<and> fst (snd (process_workflow rt self workflow_yaml params w1)) =
           fst (snd (process_workflow rt self workflow_yaml params w2))"
proof (cases "agent self")
  case None
  then show ?thesis by (simp add: process_workflow_def)
next
  case (Some ag)
  with assms have det: "\<And>instruction. fst (run ag instruction w1) = fst (run ag instruction w2)"
    by blast
  show ?thesis
  proof (cases "safe_load rt workflow_yaml")
    case (Inl e)
    with Some show ?thesis by (simp add: process_workflow_def Let_def)
  next
    case (Inr workflow)
    show ?thesis
    proof (cases "extract_metadata workflow")
      case (Inl e)
      with Some \<open>safe_load rt workflow_yaml = Inr workflow\<close> show ?thesis
        by (simp add: process_workflow_def)
    next
      case meta: (Inr m)
      obtain scenario_name domain disclaimers where m: "m = (scenario_name, domain, disclaimers)"
        by (cases m) auto
      show ?thesis
      proof (cases "params_section params")
        case (Inl e)
        with Some Inr meta m show ?thesis by (simp add: process_workflow_def Let_def)
      next
        case sec: (Inr params_sec)
        let ?p = "prompt (format_value rt domain) params_sec workflow_yaml"
        obtain r1 v1 where r1: "run ag ?p w1 = (r1, v1)" by (cases "run ag ?p w1") auto
        obtain r2 v2 where r2: "run ag ?p w2 = (r2, v2)" by (cases "run ag ?p w2") auto
        from det [of ?p] r1 r2 have "r1 = r2" by simp
        with Some Inr meta m sec r1 r2 show ?thesis
          by (cases r2) (simp_all add: process_workflow_def Let_def)
      qed
    qed
  qed
qed

text \<open>The second call starts in the state the first one left, where one call was counted.\<close>

theorem deterministic_backend_repeatable_witness:
  "(\<forall>instruction w1 w2. fst (run done_agent instruction w1) = fst (run done_agent instruction w2))
   \<and> fst (snd (snd (process_workflow example_runtime (set_agent (fst (init None)) done_agent)
        refund_yaml (Some [(PStr ''amount'', PInt 50)]) 0))) = 1
   \<and> fst (process_workflow example_runtime (set_agent (fst (init None)) done_agent)
        refund_yaml (Some [(PStr ''amount'', PInt 50)]) 0) =
     fst (process_workflow example_runtime (set_agent (fst (init None)) done_agent)
        refund_yaml (Some [(PStr ''amount'', PInt 50)]) 1)
   \<and> fst (snd (process_workflow example_runtime (set_agent (fst (init None)) done_agent)
        refund_yaml (Some [(PStr ''amount'', PInt 50)]) 0)) =
     fst (snd (process_workflow example_runtime (set_agent (fst (init None)) done_agent)
        refund_yaml (Some [(PStr ''amount'', PInt 50)]) 1))"
proof -
  have det: "\<forall>ag instruction w1 w2.
      agent (set_agent (fst (init None)) done_agent) = Some ag
      \<longrightarrow> fst (run ag instruction w1) = fst (run ag instruction (w2::nat))"
    by (simp add: set_agent_def init_def done_agent_def)
  have after: "fst (snd (snd (process_workflow example_runtime
        (set_agent (fst (init None)) done_agent)
        refund_yaml (Some [(PStr ''amount'', PInt 50)]) 0))) = 1"
    by (simp add: process_workflow_def set_agent_def init_def example_runtime_def
          example_load_def extract_metadata_def py_get_def format_value_def params_section_def
          dumps_amount_50 done_agent_def Let_def)
  from deterministic_backend_repeatable [OF det, of example_runtime refund_yaml
      "Some [(PStr ''amount'', PInt 50)]" 0 1] after
  show ?thesis
    by (simp add: done_agent_def)
qed

text \<open>
  C9. With an agent set, a document text that parses without error to anything but a
  mapping (\<^verbatim>\<open>None\<close> for the empty document, a scalar, a list) makes \<open>process_workflow\<close>
  raise the \<^verbatim>\<open>AttributeError\<close> of the first \<^verbatim>\<open>workflow.get\<close>: no dictionary is returned,
  neither a success nor an error one, and the agent is not called.
\<close>

theorem non_mapping_document_raises:
  assumes "agent self = Some ag"
    and "safe_load rt workflow_yaml = Inr v"
    and "\<not> is_dict v"
  shows "process_workflow rt self workflow_yaml params w =
           (Inl (Raise ''AttributeError''
                   ([CHR 0x27] @ class_name v @ [CHR 0x27] @ '' object has no attribute ''
                    @ [CHR 0x27] @ ''get'' @ [CHR 0x27])),
            [Log_Info ''Processing workflow''], w, self)"
  using assms by (simp add: process_workflow_def extract_metadata_non_dict)

theorem non_mapping_document_raises_witness:
  "agent (set_agent (fst (init None)) done_agent) = Some done_agent
   \<and> safe_load example_runtime [] = Inr PNone
   \<and> \<not> is_dict PNone
   \<and> process_workflow example_runtime (set_agent (fst (init None)) done_agent) []
        (Some [(PStr ''amount'', PInt 50)]) 0 =
       (Inl (Raise ''AttributeError''
               ([CHR 0x27] @ ''NoneType'' @ [CHR 0x27] @ '' object has no attribute ''
                @ [CHR 0x27] @ ''get'' @ [CHR 0x27])),
        [Log_Info ''Processing workflow''], 0, set_agent (fst (init None)) done_agent)
   \<and> safe_load example_runtime list_yaml = Inr (PList [PStr ''a''])
   \<and> \<not> is_dict (PList [PStr ''a''])
   \<and> process_workflow example_runtime (set_agent (fst (init None)) done_agent) list_yaml
        None 0 =
       (Inl (Raise ''AttributeError''
               ([CHR 0x27] @ ''list'' @ [CHR 0x27] @ '' object has no attribute ''
                @ [CHR 0x27] @ ''get'' @ [CHR 0x27])),
        [Log_Info ''Processing workflow''], 0, set_agent (fst (init None)) done_agent)"
  using non_mapping_document_raises [of "set_agent (fst (init None)) done_agent" done_agent
      example_runtime "[]" PNone "Some [(PStr ''amount'', PInt 50)]" 0]
    non_mapping_document_raises [of "set_agent (fst (init None)) done_agent" done_agent
      example_runtime list_yaml "PList [PStr ''a'']" None 0]
  by (simp add: set_agent_def init_def example_runtime_def example_load_def
        refund_yaml_def steps_yaml_def list_yaml_def is_dict_def class_name_def)

text \<open>
  C10. \<open>process_workflow\<close> never assigns \<^verbatim>\<open>self.agent\<close>: whatever the call does, the
  processor afterwards is the processor before. The attribute is assigned by the
  constructor and by \<open>set_agent\<close>, to the value they are given.
\<close>

theorem process_workflow_keeps_agent:
  "snd (snd (snd (process_workflow rt self workflow_yaml params w))) = self
   \<and> agent (snd (snd (snd (process_workflow rt self workflow_yaml params w)))) = agent self
   \<and> agent (fst (init a)) = a
   \<and> agent (set_agent self b) = Some b"
  by (simp add: process_workflow_def init_def set_agent_def Let_def
           split: option.split sum.split prod.split)

end
